theory Spec2Isabelle
  imports Main "HOL-Library.Word"
begin

section \<open>The journald writer of \<^verbatim>\<open>journal.go\<close>\<close>

text \<open>
  \<^verbatim>\<open>JournalWriter.WriteEntry\<close> decodes one JSON log entry, renders it in the journal
  export format into a pooled byte buffer, and sends the buffer as one datagram to the
  journal socket; when the datagram is refused for its size, the bytes go through an
  unlinked file in \<^verbatim>\<open>/dev/shm\<close> whose descriptor is passed as ancillary data.

  Byte strings (\<^verbatim>\<open>[]byte\<close> and Go's \<^verbatim>\<open>string\<close>) are \<^typ>\<open>string\<close>, a list of
  8-bit characters, so \<^term>\<open>length\<close> is Go's \<^verbatim>\<open>len\<close>.
\<close>

subsection \<open>Data\<close>

text \<open>
  Modelled from the spec: the severity enumeration \<^verbatim>\<open>Level\<close> and its seven named
  constants are declared outside \<^verbatim>\<open>journal.go\<close>. The seven constants are distinct (they
  are the cases of one \<^verbatim>\<open>switch\<close>); \<open>OtherLevel\<close> stands for every other value of the
  type, the ones the \<^verbatim>\<open>default\<close> branch receives.
\<close>

datatype Level =
  TraceLevel | DebugLevel | InfoLevel | WarnLevel | ErrorLevel | FatalLevel | PanicLevel
  | OtherLevel nat

text \<open>
  Modelled from the spec: the decoded record \<^verbatim>\<open>dot\<close> (declared outside \<^verbatim>\<open>journal.go\<close>)
  with the three fields that \<^verbatim>\<open>WriteEntry\<close> reads: a level, a message and the key-value
  pairs in the order of the entry.
\<close>

record kv =
  Key :: string
  Value :: string

record dot =
  Level :: Level
  Message :: string
  KeyValue :: "kv list"

text \<open>The log entry: \<^verbatim>\<open>WriteEntry\<close> reads only its raw bytes \<^verbatim>\<open>e.buf\<close>.\<close>

record Entry =
  buf :: string

subsection \<open>The field encoder\<close>

definition nl :: char where
  "nl = CHR 0x0A"

text \<open>\<^verbatim>\<open>fmt.Fprintln(w, s)\<close> on the byte buffer: the buffer's \<^verbatim>\<open>Write\<close> appends.\<close>

definition Fprintln :: "string \<Rightarrow> string \<Rightarrow> string" where
  "Fprintln b s = b @ s @ [nl]"

text \<open>
  \<^verbatim>\<open>binary.LittleEndian.PutUint64\<close>: byte \<open>i\<close> is \<^verbatim>\<open>byte(v >> (8 * i))\<close>, the conversion to
  \<^verbatim>\<open>byte\<close> keeping the low eight bits.
\<close>

definition byte :: "64 word \<Rightarrow> char" where
  "byte v = char_of (unat v)"

definition PutUint64 :: "64 word \<Rightarrow> string" where
  "PutUint64 v =
     [byte v, byte (drop_bit 8 v), byte (drop_bit 16 v), byte (drop_bit 24 v),
      byte (drop_bit 32 v), byte (drop_bit 40 v), byte (drop_bit 48 v), byte (drop_bit 56 v)]"

text \<open>\<^verbatim>\<open>binary.Write(w, binary.LittleEndian, uint64(n))\<close> on the byte buffer.\<close>

definition binary_Write :: "string \<Rightarrow> 64 word \<Rightarrow> string" where
  "binary_Write b v = b @ PutUint64 v"

text \<open>\<^verbatim>\<open>fmt.Fprintf(w, "%s=%s\n", name, value)\<close>.\<close>

definition Fprintf_eq :: "string \<Rightarrow> string \<Rightarrow> string \<Rightarrow> string" where
  "Fprintf_eq b name val = b @ name @ ''='' @ val @ [nl]"

text \<open>The closure \<^verbatim>\<open>print\<close> of \<^verbatim>\<open>WriteEntry\<close>, returning the buffer it wrote to.\<close>

definition print :: "string \<Rightarrow> string \<Rightarrow> string \<Rightarrow> string" where
  "print b name val =
     (if nl \<in> set val
      then Fprintln (binary_Write (Fprintln b name) (word_of_nat (length val))) val
      else Fprintf_eq b name val)"

text \<open>The \<^verbatim>\<open>switch t.Level\<close> of \<^verbatim>\<open>WriteEntry\<close>.\<close>

fun priority :: "Level \<Rightarrow> string" where
  "priority TraceLevel = ''7''"
| "priority DebugLevel = ''7''"
| "priority InfoLevel = ''6''"
| "priority WarnLevel = ''4''"
| "priority ErrorLevel = ''3''"
| "priority FatalLevel = ''2''"
| "priority PanicLevel = ''0''"
| "priority (OtherLevel k) = ''5''"

text \<open>
  \<^verbatim>\<open>strings.ToUpper\<close>. A string of ASCII bytes only (all below \<^verbatim>\<open>utf8.RuneSelf\<close>) has its
  letters \<^verbatim>\<open>a\<close> to \<^verbatim>\<open>z\<close> moved down by \<^verbatim>\<open>'a' - 'A'\<close>; any other string is mapped rune by
  rune through the Unicode tables of the standard library, which the model takes as the
  parameter \<open>mapUpper\<close>.
\<close>

definition upper_ascii :: "char \<Rightarrow> char" where
  "upper_ascii c =
     (if (97::nat) \<le> of_char c \<and> of_char c \<le> (122::nat)
      then char_of (of_char c - (32::nat)) else c)"

definition isASCII :: "string \<Rightarrow> bool" where
  "isASCII s = list_all (\<lambda>c. of_char c < (128::nat)) s"

definition ToUpper :: "(string \<Rightarrow> string) \<Rightarrow> string \<Rightarrow> string" where
  "ToUpper mapUpper s = (if isASCII s then map upper_ascii s else mapUpper s)"

text \<open>The loop \<^verbatim>\<open>for _, kv := range t.KeyValue\<close>, threading the buffer.\<close>

fun print_fields :: "(string \<Rightarrow> string) \<Rightarrow> string \<Rightarrow> kv list \<Rightarrow> string" where
  "print_fields mapUpper b [] = b"
| "print_fields mapUpper b (x # xs) =
     print_fields mapUpper (print b (ToUpper mapUpper (Key x)) (Value x)) xs"

text \<open>
  Lines 65 to 110 of \<^verbatim>\<open>WriteEntry\<close>: the buffer taken from the pool is cut to length
  zero, then receives \<^verbatim>\<open>PRIORITY\<close>, \<^verbatim>\<open>MESSAGE\<close>, the caller's fields and \<^verbatim>\<open>JSON\<close>.
\<close>

definition encode :: "(string \<Rightarrow> string) \<Rightarrow> dot \<Rightarrow> string \<Rightarrow> string" where
  "encode mapUpper t raw =
     (let b0 = [];
          b1 = print b0 ''PRIORITY'' (priority (Level t));
          b2 = print b1 ''MESSAGE'' (Message t);
          b3 = print_fields mapUpper b2 (KeyValue t)
      in print b3 ''JSON'' raw)"

subsection \<open>Errors, the connection and the operating system\<close>

text \<open>
  Go errors, as far as \<^verbatim>\<open>WriteEntry\<close> inspects them. \<open>OpError e\<close> is a \<^verbatim>\<open>*net.OpError\<close>
  whose field \<^verbatim>\<open>Err\<close> is \<open>e\<close>, \<open>SyscallError e\<close> a \<^verbatim>\<open>*os.SyscallError\<close> whose field
  \<^verbatim>\<open>Err\<close> is \<open>e\<close>, \<open>Errno\<close> a \<^verbatim>\<open>syscall.Errno\<close>; \<open>OpErrorNil\<close> and \<open>SyscallErrorNil\<close> are the
  nil pointers of the two pointer types inside an interface value; \<open>ErrNetClosing\<close> is the
  net package's "use of closed network connection".
\<close>

datatype errno = EMSGSIZE | ENOBUFS | OtherErrno nat

datatype error =
  OpError error
  | OpErrorNil
  | SyscallError error
  | SyscallErrorNil
  | Errno errno
  | ErrNetClosing
  | OtherError string

text \<open>
  The \<^verbatim>\<open>*net.UnixConn\<close> held by the writer. Only the writer refers to it, so it is a value
  in the writer's state: open, or closed by \<^verbatim>\<open>Close\<close>.
\<close>

datatype UnixConn = ConnOpen | ConnClosed

text \<open>
  The struct \<^verbatim>\<open>JournalWriter\<close>. \<open>once\<close> is the done flag of its \<^verbatim>\<open>sync.Once\<close>; \<open>addr\<close> is
  the \<^verbatim>\<open>Name\<close> of the \<^verbatim>\<open>*net.UnixAddr\<close> (its \<^verbatim>\<open>Net\<close> is always \<^verbatim>\<open>unixgram\<close>); \<open>None\<close> is a
  nil pointer.
\<close>

record JournalWriter =
  JournalSocket :: string
  once :: bool
  addr :: "string option"
  conn :: "UnixConn option"

text \<open>An \<^verbatim>\<open>*os.File\<close>: its path and its descriptor.\<close>

record File =
  Name :: string
  Fd :: nat

text \<open>
  What the functions called by \<^verbatim>\<open>WriteEntry\<close> and \<^verbatim>\<open>Close\<close> answer during one call:
  \<^item> \<open>ResolveUnixAddr\<close>, \<open>ListenUnixgram\<close>: the error of the two setup calls, if any;
  \<^item> \<open>jsonToDot\<close>: the decoder of this package (declared outside \<^verbatim>\<open>journal.go\<close>);
  \<^item> \<open>mapUpper\<close>: the Unicode part of \<^verbatim>\<open>strings.ToUpper\<close>;
  \<^item> \<open>sendmsg\<close>: what \<^verbatim>\<open>WriteMsgUnix\<close> returns on an open connection for the payload, the
    descriptors passed as rights and the destination (\<^verbatim>\<open>n\<close> and \<^verbatim>\<open>err\<close>);
  \<^item> \<open>TempFile\<close>, \<open>Unlink\<close>, \<open>file_Write\<close>: the three file operations of the fallback;
  \<^item> \<open>close_conn\<close>: the error of closing the open connection, if any.
\<close>

record sys =
  ResolveUnixAddr :: "error option"
  ListenUnixgram :: "error option"
  jsonToDot :: "string \<Rightarrow> error + dot"
  mapUpper :: "string \<Rightarrow> string"
  sendmsg :: "string \<Rightarrow> nat list \<Rightarrow> string option \<Rightarrow> nat \<times> error option"
  TempFile :: "error + File"
  Unlink :: "string \<Rightarrow> error option"
  file_Write :: "File \<Rightarrow> string \<Rightarrow> nat \<times> error option"
  close_conn :: "error option"

text \<open>The calls that leave the process, in the order they are made.\<close>

datatype event =
  EvResolveUnixAddr
  | EvListenUnixgram
  | EvWriteMsgUnix string "nat list" "string option"
  | EvTempFile
  | EvUnlink string
  | EvFileWrite nat string
  | EvFileClose nat
  | EvConnClose

text \<open>
  \<^verbatim>\<open>(*net.UnixConn).WriteMsgUnix\<close> of Go's standard library, which \<^verbatim>\<open>journal.go\<close> calls
  twice. On an open connection the operating system decides (\<open>sendmsg\<close>). On a closed
  connection the net package answers \<^verbatim>\<open>ErrNetClosing\<close> inside a \<^verbatim>\<open>*net.OpError\<close> and
  writes nothing. On a nil pointer, which is what a failed \<^verbatim>\<open>ListenUnixgram\<close> leaves in
  \<^verbatim>\<open>w.conn\<close>, the method selects the embedded \<^verbatim>\<open>conn\<close> of its receiver, a nil
  dereference: the call panics and returns nothing.
\<close>

datatype sent = Sent nat "error option" | NilReceiver

definition UnixConn_WriteMsgUnix ::
  "sys \<Rightarrow> UnixConn option \<Rightarrow> string \<Rightarrow> nat list \<Rightarrow> string option \<Rightarrow> sent" where
  "UnixConn_WriteMsgUnix env c b oob a =
     (case c of
        None \<Rightarrow> NilReceiver
      | Some ConnClosed \<Rightarrow> Sent 0 (Some (OpError ErrNetClosing))
      | Some ConnOpen \<Rightarrow> (case sendmsg env b oob a of (n, err) \<Rightarrow> Sent n err))"

text \<open>
  \<^verbatim>\<open>(*net.UnixConn).Close\<close> of Go's standard library on a connection that is not nil: the
  first call releases the socket whatever the operating system answers, every later
  call answers \<^verbatim>\<open>ErrNetClosing\<close> inside a \<^verbatim>\<open>*net.OpError\<close>.
\<close>

definition UnixConn_Close :: "sys \<Rightarrow> UnixConn \<Rightarrow> error option \<times> UnixConn" where
  "UnixConn_Close env c =
     (case c of
        ConnOpen \<Rightarrow> (close_conn env, ConnClosed)
      | ConnClosed \<Rightarrow> (Some (OpError ErrNetClosing), ConnClosed))"

subsection \<open>\<^verbatim>\<open>Close\<close>\<close>

text \<open>
  Lines 28 to 33: the connection is closed when the pointer is not nil; the pointer
  itself stays as it is.
\<close>

definition Close :: "sys \<Rightarrow> JournalWriter \<Rightarrow> error option \<times> JournalWriter \<times> event list" where
  "Close env w =
     (case conn w of
        None \<Rightarrow> (None, w, [])
      | Some c \<Rightarrow>
          (case UnixConn_Close env c of
             (err, c') \<Rightarrow> (err, w\<lparr>conn := Some c'\<rparr>, [EvConnClose])))"

subsection \<open>\<^verbatim>\<open>WriteEntry\<close>\<close>

text \<open>
  \<^verbatim>\<open>w.once.Do(func() {...})\<close>: the closure runs only while the flag is unset, and the flag
  is set when it returns. The closure assigns the named result \<^verbatim>\<open>err\<close> of the call it
  runs in; a call that does not run the closure keeps its own \<^verbatim>\<open>err\<close> at nil.
\<close>

definition once_Do :: "sys \<Rightarrow> JournalWriter \<Rightarrow> error option \<times> JournalWriter \<times> event list" where
  "once_Do env w =
     (if once w then (None, w, [])
      else
        let w1 = w\<lparr>addr := Some (if JournalSocket w = [] then ''/run/systemd/journal/socket''
                                  else JournalSocket w)\<rparr>
        in (case ResolveUnixAddr env of
              Some err \<Rightarrow> (Some err, w1\<lparr>once := True\<rparr>, [EvResolveUnixAddr])
            | None \<Rightarrow>
                (case ListenUnixgram env of
                   Some err \<Rightarrow>
                     (Some err, w1\<lparr>conn := None, once := True\<rparr>,
                      [EvResolveUnixAddr, EvListenUnixgram])
                 | None \<Rightarrow>
                     (None, w1\<lparr>conn := Some ConnOpen, once := True\<rparr>,
                      [EvResolveUnixAddr, EvListenUnixgram]))))"

text \<open>
  Lines 118 to 129: the send error starts the fallback only when it is a \<^verbatim>\<open>*net.OpError\<close>
  that is not nil, around a \<^verbatim>\<open>*os.SyscallError\<close> that is not nil, around \<^verbatim>\<open>EMSGSIZE\<close> or
  \<^verbatim>\<open>ENOBUFS\<close>.
\<close>

definition size_limit :: "error \<Rightarrow> bool" where
  "size_limit err =
     (case err of
        OpError opErr \<Rightarrow>
          (case opErr of
             SyscallError sysErr \<Rightarrow> sysErr = Errno EMSGSIZE \<or> sysErr = Errno ENOBUFS
           | _ \<Rightarrow> False)
      | _ \<Rightarrow> False)"

text \<open>What one call hands back: the named results \<^verbatim>\<open>n\<close> and \<^verbatim>\<open>err\<close>, or a panic.\<close>

datatype outcome = Return nat "error option" | Panic

text \<open>
  Lines 131 to 152, entered with the \<^verbatim>\<open>n\<close> of the refused send. \<^verbatim>\<open>defer file.Close()\<close> is
  registered after the unlink has succeeded, so the close is the last event of every
  path from there on and of no path before.
\<close>

definition fallback :: "sys \<Rightarrow> JournalWriter \<Rightarrow> Entry \<Rightarrow> string \<Rightarrow> nat \<Rightarrow> outcome \<times> event list" where
  "fallback env w e b n =
     (case TempFile env of
        Inl err \<Rightarrow> (Return n (Some err), [EvTempFile])
      | Inr file \<Rightarrow>
          (case Unlink env (Name file) of
             Some err \<Rightarrow> (Return n (Some err), [EvTempFile, EvUnlink (Name file)])
           | None \<Rightarrow>
               (case file_Write env file b of
                  (n1, Some err) \<Rightarrow>
                    (Return n1 (Some err),
                     [EvTempFile, EvUnlink (Name file), EvFileWrite (Fd file) b,
                      EvFileClose (Fd file)])
                | (n1, None) \<Rightarrow>
                    (case UnixConn_WriteMsgUnix env (conn w) [] [Fd file] (addr w) of
                       NilReceiver \<Rightarrow>
                         (Panic,
                          [EvTempFile, EvUnlink (Name file), EvFileWrite (Fd file) b,
                           EvFileClose (Fd file)])
                     | Sent m err \<Rightarrow>
                         (Return (if err = None then length (buf e) else n1) err,
                          [EvTempFile, EvUnlink (Name file), EvFileWrite (Fd file) b,
                           EvWriteMsgUnix [] [Fd file] (addr w), EvFileClose (Fd file)])))))"

text \<open>Lines 112 to 152: the direct send, then the fallback when the error asks for it.\<close>

definition transmit :: "sys \<Rightarrow> JournalWriter \<Rightarrow> Entry \<Rightarrow> string \<Rightarrow> outcome \<times> event list" where
  "transmit env w e b =
     (case UnixConn_WriteMsgUnix env (conn w) b [] (addr w) of
        NilReceiver \<Rightarrow> (Panic, [])
      | Sent n None \<Rightarrow> (Return n None, [EvWriteMsgUnix b [] (addr w)])
      | Sent n (Some err) \<Rightarrow>
          (if size_limit err
           then (case fallback env w e b n of
                   (out, tr) \<Rightarrow> (out, EvWriteMsgUnix b [] (addr w) # tr))
           else (Return n (Some err), [EvWriteMsgUnix b [] (addr w)])))"

text \<open>
  Lines 36 to 63, then the encoder and the send. The named results start as 0 and nil;
  a failed setup or a failed decoding returns before the buffer is taken from the pool.
\<close>

definition WriteEntry :: "sys \<Rightarrow> JournalWriter \<Rightarrow> Entry \<Rightarrow> outcome \<times> JournalWriter \<times> event list" where
  "WriteEntry env w e =
     (case once_Do env w of
        (Some err, w1, tr0) \<Rightarrow> (Return 0 (Some err), w1, tr0)
      | (None, w1, tr0) \<Rightarrow>
          (case jsonToDot env (buf e) of
             Inl err \<Rightarrow> (Return 0 (Some err), w1, tr0)
           | Inr t \<Rightarrow>
               (case transmit env w1 e (encode (mapUpper env) t (buf e)) of
                  (out, tr) \<Rightarrow> (out, w1, tr0 @ tr))))"

subsection \<open>Reading the plain wire form back\<close>

text \<open>
  The fields of one record as the specification lists them: \<^verbatim>\<open>PRIORITY\<close>, \<^verbatim>\<open>MESSAGE\<close>,
  the caller's pairs in their order under upper-cased names, \<^verbatim>\<open>JSON\<close>.
\<close>

definition spec_fields :: "(string \<Rightarrow> string) \<Rightarrow> dot \<Rightarrow> string \<Rightarrow> (string \<times> string) list" where
  "spec_fields up t raw =
     [(''PRIORITY'', priority (Level t)), (''MESSAGE'', Message t)]
     @ map (\<lambda>x. (ToUpper up (Key x), Value x)) (KeyValue t)
     @ [(''JSON'', raw)]"

text \<open>
  The reader of the specification's round trip, written from its words: the bytes are
  cut after each newline, and each line is cut at its first \<^verbatim>\<open>=\<close> into a name and a
  value. Bytes after the last newline, or a line without \<^verbatim>\<open>=\<close>, are refused.
\<close>

fun split_first :: "char \<Rightarrow> string \<Rightarrow> (string \<times> string) option" where
  "split_first c [] = None"
| "split_first c (x # xs) =
     (if x = c then Some ([], xs)
      else (case split_first c xs of None \<Rightarrow> None | Some (l, r) \<Rightarrow> Some (x # l, r)))"

function parse_plain :: "string \<Rightarrow> (string \<times> string) list option" where
  "parse_plain s =
     (if s = [] then Some []
      else (case split_first nl s of
              None \<Rightarrow> None
            | Some (line, rest) \<Rightarrow>
                (case split_first CHR ''='' line of
                   None \<Rightarrow> None
                 | Some f \<Rightarrow>
                     (case parse_plain rest of None \<Rightarrow> None | Some fs \<Rightarrow> Some (f # fs)))))"
  by pat_completeness auto
termination
proof -
  have shorter: "length r < length s" if "split_first c s = Some (l, r)" for c s l r
    using that by (induction s arbitrary: l) (auto split: if_splits option.splits)
  show ?thesis
    by (relation "measure length") (auto dest: shorter)
qed

declare parse_plain.simps [simp del]

text \<open>The plain form of one field, as the specification writes it.\<close>

definition plain_field :: "string \<times> string \<Rightarrow> string" where
  "plain_field f = fst f @ ''='' @ snd f @ [nl]"

text \<open>
  The field format of the specification, written from its words. The \<open>k\<close>-byte
  little-endian form of a number has as byte \<open>i\<close> the number divided by \<open>256 ^ i\<close>, cut to
  eight bits. A field whose value contains a newline is the name, a newline, the eight
  little-endian bytes of the value's length, the value and a newline; any other field is
  in the plain form.
\<close>

definition le_bytes :: "nat \<Rightarrow> nat \<Rightarrow> string" where
  "le_bytes k n = map (\<lambda>i. char_of (n div 256 ^ i)) [0..<k]"

definition wire_field :: "string \<times> string \<Rightarrow> string" where
  "wire_field f =
     (if nl \<in> set (snd f)
      then fst f @ [nl] @ le_bytes 8 (length (snd f)) @ snd f @ [nl]
      else plain_field f)"

text \<open>
  Upper-casing as the specification means it for ASCII: each of the letters \<^verbatim>\<open>a\<close> to \<^verbatim>\<open>z\<close>
  becomes its capital, every other byte stays.
\<close>

definition upper_letter :: "char \<Rightarrow> char" where
  "upper_letter c =
     (case map_of (zip ''abcdefghijklmnopqrstuvwxyz'' ''ABCDEFGHIJKLMNOPQRSTUVWXYZ'') c of
        None \<Rightarrow> c
      | Some C \<Rightarrow> C)"

text \<open>
  Reading eight bytes as a little-endian unsigned integer, the first byte the least
  significant.
\<close>

definition Uint64 :: "string \<Rightarrow> nat" where
  "Uint64 s = foldr (\<lambda>c a. of_char c + 256 * a) s 0"

text \<open>The three parts of what a call leaves behind.\<close>

definition returned :: "'a \<times> JournalWriter \<times> event list \<Rightarrow> 'a" where
  "returned r = fst r"

definition writer_after :: "'a \<times> JournalWriter \<times> event list \<Rightarrow> JournalWriter" where
  "writer_after r = fst (snd r)"

definition trace :: "'a \<times> JournalWriter \<times> event list \<Rightarrow> event list" where
  "trace r = snd (snd r)"

subsection \<open>Example inputs\<close>

text \<open>
  A decoded record, the entry it comes from, a writer that has not been used, and a
  system in which every call succeeds; \<open>too_large\<close> refuses every datagram that carries no
  descriptor with \<^verbatim>\<open>EMSGSIZE\<close>; \<open>no_descriptors\<close> is the error of a socket call that finds
  the descriptor table full; \<open>opened\<close> is the writer after one successful call.
\<close>

definition dot0 :: dot where
  "dot0 = \<lparr>Level = InfoLevel, Message = ''hello'', KeyValue = [\<lparr>Key = ''user'', Value = ''alice''\<rparr>]\<rparr>"

definition entry0 :: Entry where
  \<open>entry0 = \<lparr>buf = ''{"a":1}''\<rparr>\<close>

definition writer0 :: JournalWriter where
  "writer0 = \<lparr>JournalSocket = [], once = False, addr = None, conn = None\<rparr>"

definition sys0 :: sys where
  "sys0 = \<lparr>ResolveUnixAddr = None, ListenUnixgram = None, jsonToDot = (\<lambda>b. Inr dot0),
           mapUpper = (\<lambda>s. s), sendmsg = (\<lambda>b oob a. (length b, None)),
           TempFile = Inr \<lparr>Name = ''/dev/shm/journal.XXXXX0'', Fd = 7\<rparr>,
           Unlink = (\<lambda>p. None), file_Write = (\<lambda>f b. (length b, None)), close_conn = None\<rparr>"

definition too_large :: "string \<Rightarrow> nat list \<Rightarrow> string option \<Rightarrow> nat \<times> error option" where
  "too_large b oob a =
     (if oob = [] then (0, Some (OpError (SyscallError (Errno EMSGSIZE)))) else (0, None))"

definition opened :: JournalWriter where
  "opened = writer_after (WriteEntry sys0 writer0 entry0)"

definition no_descriptors :: error where
  "no_descriptors = OpError (SyscallError (Errno (OtherErrno 24)))"

section \<open>Properties of the field encoder\<close>

subsection \<open>Writes append to the buffer\<close>

lemma print_append: "print b n v = b @ print [] n v"
  by (simp add: print_def Fprintln_def binary_Write_def Fprintf_eq_def)

lemma print_fields_append:
  "print_fields up b xs = b @ concat (map (\<lambda>x. print [] (ToUpper up (Key x)) (Value x)) xs)"
proof (induction xs arbitrary: b)
  case Nil
  show ?case by simp
next
  case (Cons x xs)
  show ?case
    by (simp add: Cons.IH) (subst print_append, simp)
qed

lemma encode_append:
  "encode up t raw =
     print [] ''PRIORITY'' (priority (Level t)) @ print [] ''MESSAGE'' (Message t)
     @ concat (map (\<lambda>x. print [] (ToUpper up (Key x)) (Value x)) (KeyValue t))
     @ print [] ''JSON'' raw"
proof -
  have "encode up t raw =
      print (print [] ''PRIORITY'' (priority (Level t)) @ print [] ''MESSAGE'' (Message t)
             @ concat (map (\<lambda>x. print [] (ToUpper up (Key x)) (Value x)) (KeyValue t))) ''JSON'' raw"
    unfolding encode_def Let_def
    by (subst print_fields_append, subst (2) print_append) simp
  then show ?thesis
    by (subst (asm) print_append) simp
qed

lemma priority_digit: "\<exists>d. priority l = [d] \<and> d \<in> set ''01234567''"
  by (cases l) simp_all

lemma nl_notin_priority: "nl \<notin> set (priority l)"
  by (cases l) (simp_all add: nl_def)

lemma print_plain: "nl \<notin> set v \<Longrightarrow> print b n v = b @ n @ ''='' @ v @ [nl]"
  by (simp add: print_def Fprintf_eq_def)

subsection \<open>The length prefix read back\<close>

lemma unat_drop_bit_bytes:
  fixes w :: "64 word"
  shows "unat (drop_bit 8 w) = unat w div 256"
    and "unat (drop_bit 16 w) = unat w div 256 div 256"
    and "unat (drop_bit 24 w) = unat w div 256 div 256 div 256"
    and "unat (drop_bit 32 w) = unat w div 256 div 256 div 256 div 256"
    and "unat (drop_bit 40 w) = unat w div 256 div 256 div 256 div 256 div 256"
    and "unat (drop_bit 48 w) = unat w div 256 div 256 div 256 div 256 div 256 div 256"
    and "unat (drop_bit 56 w) = unat w div 256 div 256 div 256 div 256 div 256 div 256 div 256"
  by (simp_all only: unat_drop_bit_eq) (simp_all add: drop_bit_eq_div div_mult2_eq [symmetric])

lemma Uint64_PutUint64: "Uint64 (PutUint64 w) = unat w"
proof -
  define x0 where "x0 = unat w"
  define x1 where "x1 = x0 div 256"
  define x2 where "x2 = x1 div 256"
  define x3 where "x3 = x2 div 256"
  define x4 where "x4 = x3 div 256"
  define x5 where "x5 = x4 div 256"
  define x6 where "x6 = x5 div 256"
  define x7 where "x7 = x6 div 256"
  have "x0 < 2 ^ 64" using unsigned_less [of w] by (simp add: x0_def)
  then have "x7 < 256"
    unfolding x7_def x6_def x5_def x4_def x3_def x2_def x1_def
    by (simp add: div_mult2_eq [symmetric] less_mult_imp_div_less)
  then have b7: "x7 mod 256 = x7" by simp
  have "Uint64 (PutUint64 w) =
      x0 mod 256 + 256 * (x1 mod 256 + 256 * (x2 mod 256 + 256 * (x3 mod 256
      + 256 * (x4 mod 256 + 256 * (x5 mod 256 + 256 * (x6 mod 256 + 256 * (x7 mod 256)))))))"
    unfolding Uint64_def PutUint64_def byte_def unat_drop_bit_bytes
      x7_def x6_def x5_def x4_def x3_def x2_def x1_def x0_def
    by simp
  also have "\<dots> = x0"
  proof -
    have e6: "x6 mod 256 + 256 * x7 = x6" by (simp add: x7_def)
    have e5: "x5 mod 256 + 256 * x6 = x5" by (simp add: x6_def)
    have e4: "x4 mod 256 + 256 * x5 = x4" by (simp add: x5_def)
    have e3: "x3 mod 256 + 256 * x4 = x3" by (simp add: x4_def)
    have e2: "x2 mod 256 + 256 * x3 = x2" by (simp add: x3_def)
    have e1: "x1 mod 256 + 256 * x2 = x1" by (simp add: x2_def)
    have e0: "x0 mod 256 + 256 * x1 = x0" by (simp add: x1_def)
    show ?thesis by (simp only: b7 e6 e5 e4 e3 e2 e1 e0)
  qed
  finally show ?thesis by (simp add: x0_def)
qed

subsection \<open>The two forms of a field\<close>

text \<open>
  C4: a value with a newline is written as the name, a newline, eight bytes, the value
  and a newline; the eight bytes are the little-endian unsigned integer of the value's
  length in bytes (read back, they give that length, for every length a Go string can
  have); a value without a newline is written as name, \<^verbatim>\<open>=\<close>, value and a newline.
\<close>

theorem print_forms:
  "(nl \<in> set val \<longrightarrow>
      print b name val = b @ name @ [nl] @ PutUint64 (word_of_nat (length val)) @ val @ [nl]
      \<and> length (PutUint64 (word_of_nat (length val))) = 8
      \<and> (length val < 2 ^ 64 \<longrightarrow> Uint64 (PutUint64 (word_of_nat (length val))) = length val))
   \<and> (nl \<notin> set val \<longrightarrow> print b name val = b @ name @ ''='' @ val @ [nl])"
  by (simp add: print_def Fprintln_def binary_Write_def Fprintf_eq_def Uint64_PutUint64
      unat_of_nat) (simp add: PutUint64_def)

theorem print_forms_witness:
  "nl \<in> set ''line1\<newline>line2'' \<and> length ''line1\<newline>line2'' < 2 ^ 64
   \<and> print [] ''MESSAGE'' ''line1\<newline>line2''
       = ''MESSAGE\<newline>'' @ PutUint64 11 @ ''line1\<newline>line2\<newline>''
   \<and> Uint64 (PutUint64 11) = 11
   \<and> nl \<notin> set ''hello'' \<and> print [] ''MESSAGE'' ''hello'' = ''MESSAGE=hello\<newline>''"
  using print_forms [of "''line1\<newline>line2''" "[]" "''MESSAGE''"]
    print_forms [of "''hello''" "[]" "''MESSAGE''"]
  by (simp add: nl_def)

subsection \<open>Priorities\<close>

text \<open>
  C6: the priority of each of the seven named levels is the fixed digit, every other
  level has priority 5, the priority of any level is one character among the digits 0
  to 7, and the output starts with the \<^verbatim>\<open>PRIORITY\<close> field in the plain form carrying it.
\<close>

theorem priority_mapping:
  "priority TraceLevel = ''7'' \<and> priority DebugLevel = ''7'' \<and> priority InfoLevel = ''6''
   \<and> priority WarnLevel = ''4'' \<and> priority ErrorLevel = ''3'' \<and> priority FatalLevel = ''2''
   \<and> priority PanicLevel = ''0'' \<and> priority (OtherLevel k) = ''5''
   \<and> (\<exists>d. priority l = [d] \<and> d \<in> set ''01234567'')
   \<and> (\<exists>rest. encode up t raw = ''PRIORITY='' @ priority (Level t) @ [nl] @ rest)"
  using priority_digit [of l] encode_append [of up t raw] nl_notin_priority [of "Level t"]
  by (simp add: print_plain)

subsection \<open>The order of the fields\<close>

text \<open>The code's field writer and upper-casing against the specification's.\<close>

lemma byte_drop_bit:
  "k \<le> 56 \<Longrightarrow> byte (drop_bit k (word_of_nat n :: 64 word)) = char_of (drop_bit k n)"
  by (simp add: byte_def char_of_def bit_simps)

lemma le_bytes_8:
  "le_bytes 8 n =
     [char_of n, char_of (drop_bit 8 n), char_of (drop_bit 16 n), char_of (drop_bit 24 n),
      char_of (drop_bit 32 n), char_of (drop_bit 40 n), char_of (drop_bit 48 n),
      char_of (drop_bit 56 n)]"
proof -
  have "[0..<8::nat] = [0, 1, 2, 3, 4, 5, 6, 7]" by code_simp
  then show ?thesis by (simp add: le_bytes_def drop_bit_eq_div)
qed

lemma PutUint64_le_bytes: "PutUint64 (word_of_nat n) = le_bytes 8 n"
  using byte_drop_bit [of 0 n]
  by (simp add: PutUint64_def le_bytes_8 byte_drop_bit)

lemma print_wire_field: "print [] n v = wire_field (n, v)"
  by (simp add: print_def Fprintln_def binary_Write_def Fprintf_eq_def PutUint64_le_bytes
      wire_field_def plain_field_def)

lemma upper_ascii_letter: "upper_ascii c = upper_letter c"
proof -
  obtain b0 b1 b2 b3 b4 b5 b6 b7 where c: "c = Char b0 b1 b2 b3 b4 b5 b6 b7"
    by (cases c)
  show ?thesis
    unfolding c
    by (cases b0; cases b1; cases b2; cases b3; cases b4; cases b5; cases b6; cases b7;
        simp add: upper_ascii_def upper_letter_def char_of_def bit_Suc_0_iff)
qed

lemma upper_letter_not_lower: "upper_letter c \<notin> set ''abcdefghijklmnopqrstuvwxyz''"
  by (simp add: upper_letter_def)

lemma ToUpper_letters: "ToUpper up k = (if isASCII k then map upper_letter k else up k)"
  by (simp add: ToUpper_def upper_ascii_letter [abs_def])

lemma wire_field_multiline:
  "wire_field (''MESSAGE'', ''line1\<newline>line2'')
     = ''MESSAGE\<newline>'' @ [CHR 0x0B, CHR 0x00, CHR 0x00, CHR 0x00, CHR 0x00, CHR 0x00, CHR 0x00,
                        CHR 0x00] @ ''line1\<newline>line2\<newline>''"
  by (simp add: wire_field_def le_bytes_8 nl_def drop_bit_eq_div) code_simp

text \<open>
  C5: the bytes of a record are, in the field format of the specification and in this
  order, the field \<^verbatim>\<open>PRIORITY\<close> with the priority digit, the field \<^verbatim>\<open>MESSAGE\<close> with the
  message, one field for each key-value pair in the order of the record, named by the
  upper-cased key (for a key of ASCII bytes: every letter \<^verbatim>\<open>a\<close> to \<^verbatim>\<open>z\<close> replaced by its
  capital; otherwise the Unicode mapping of the standard library), and last the field
  \<^verbatim>\<open>JSON\<close> whose value is the raw entry; an upper-cased ASCII key contains no letter
  \<^verbatim>\<open>a\<close> to \<^verbatim>\<open>z\<close>.
\<close>

theorem encode_field_order:
  "encode up t (buf e) =
     concat (map wire_field
       ([(''PRIORITY'', priority (Level t)), (''MESSAGE'', Message t)]
        @ map (\<lambda>x. (if isASCII (Key x) then map upper_letter (Key x) else up (Key x), Value x))
            (KeyValue t)
        @ [(''JSON'', buf e)]))
   \<and> (isASCII k \<longrightarrow>
        ToUpper up k = map upper_letter k
        \<and> list_all (\<lambda>c. c \<notin> set ''abcdefghijklmnopqrstuvwxyz'') (ToUpper up k))"
  by (simp add: encode_append print_wire_field ToUpper_letters comp_def list_all_iff
      upper_letter_not_lower del: set_simps)

theorem encode_field_order_witness:
  "isASCII ''user''
   \<and> ToUpper (\<lambda>s. s) ''user'' = ''USER''
   \<and> list_all (\<lambda>c. c \<notin> set ''abcdefghijklmnopqrstuvwxyz'') (ToUpper (\<lambda>s. s) ''user'')
   \<and> encode (\<lambda>s. s) dot0 (buf entry0)
       = concat (map wire_field
           [(''PRIORITY'', ''6''), (''MESSAGE'', ''hello''), (''USER'', ''alice''),
            (''JSON'', buf entry0)])"
proof -
  have a: "isASCII ''user''" by (simp add: isASCII_def)
  have u: "map upper_letter ''user'' = ''USER''" by (simp add: upper_letter_def)
  note th = encode_field_order [of "\<lambda>s. s" dot0 entry0 "''user''"]
  from th a have up: "ToUpper (\<lambda>s. s) ''user'' = map upper_letter ''user''"
    and low: "list_all (\<lambda>c. c \<notin> set ''abcdefghijklmnopqrstuvwxyz'') (ToUpper (\<lambda>s. s) ''user'')"
    by blast+
  from th have "encode (\<lambda>s. s) dot0 (buf entry0) =
     concat (map wire_field
       ([(''PRIORITY'', priority (Level dot0)), (''MESSAGE'', Message dot0)]
        @ map (\<lambda>x. (if isASCII (Key x) then map upper_letter (Key x) else Key x, Value x))
            (KeyValue dot0)
        @ [(''JSON'', buf entry0)]))"
    by blast
  also have "([(''PRIORITY'', priority (Level dot0)), (''MESSAGE'', Message dot0)]
        @ map (\<lambda>x. (if isASCII (Key x) then map upper_letter (Key x) else Key x, Value x))
            (KeyValue dot0)
        @ [(''JSON'', buf entry0)])
     = [(''PRIORITY'', ''6''), (''MESSAGE'', ''hello''), (''USER'', ''alice''),
        (''JSON'', buf entry0)]"
    by (simp add: dot0_def a upper_letter_def)
  finally have e: "encode (\<lambda>s. s) dot0 (buf entry0)
       = concat (map wire_field
           [(''PRIORITY'', ''6''), (''MESSAGE'', ''hello''), (''USER'', ''alice''),
            (''JSON'', buf entry0)])" .
  from up u have up': "ToUpper (\<lambda>s. s) ''user'' = ''USER''" by simp
  from a up' low e show ?thesis by blast
qed

text \<open>
  C7: the record with level info, message \<^verbatim>\<open>hello\<close>, the one pair \<^verbatim>\<open>user\<close>, \<^verbatim>\<open>alice\<close> and
  the raw entry \<^verbatim>\<open>{"a":1}\<close> is encoded as the four plain lines of the scenario.
\<close>

theorem encode_scenario:
  \<open>encode up \<lparr>Level = InfoLevel, Message = ''hello'',
               KeyValue = [\<lparr>Key = ''user'', Value = ''alice''\<rparr>]\<rparr> ''{"a":1}''
    = ''PRIORITY=6\<newline>MESSAGE=hello\<newline>USER=alice\<newline>JSON={"a":1}\<newline>''\<close>
  by code_simp

subsection \<open>Reading the plain form back\<close>

lemma split_first_append: "c \<notin> set l \<Longrightarrow> split_first c (l @ c # r) = Some (l, r)"
  by (induction l) auto

lemma parse_plain_Nil: "parse_plain [] = Some []"
  by (subst parse_plain.simps) simp

lemma parse_plain_line:
  assumes "nl \<notin> set n" "CHR ''='' \<notin> set n" "nl \<notin> set v"
  shows "parse_plain (n @ ''='' @ v @ [nl] @ rest) =
           (case parse_plain rest of None \<Rightarrow> None | Some fs \<Rightarrow> Some ((n, v) # fs))"
proof -
  have "nl \<notin> set (n @ ''='' @ v)" using assms by (simp add: nl_def)
  then have "split_first nl ((n @ ''='' @ v) @ nl # rest) = Some (n @ ''='' @ v, rest)"
    by (rule split_first_append)
  then have line: "split_first nl (n @ ''='' @ v @ [nl] @ rest) = Some (n @ ''='' @ v, rest)"
    by simp
  have name: "split_first CHR ''='' (n @ ''='' @ v) = Some (n, v)"
    using split_first_append [OF assms(2), of v] by simp
  have "parse_plain ((n @ ''='' @ v @ [nl]) @ rest) =
           (case parse_plain rest of None \<Rightarrow> None | Some fs \<Rightarrow> Some ((n, v) # fs))"
    using line name by (subst parse_plain.simps) simp
  then show ?thesis by simp
qed

lemma parse_plain_fields:
  assumes "list_all (\<lambda>f. nl \<notin> set (fst f) \<and> CHR ''='' \<notin> set (fst f) \<and> nl \<notin> set (snd f)) fs"
  shows "parse_plain (concat (map plain_field fs)) = Some fs"
  using assms
proof (induction fs)
  case Nil
  show ?case by (simp add: parse_plain_Nil)
next
  case (Cons f fs)
  obtain n v where f: "f = (n, v)" by (cases f)
  from Cons.prems have ok: "nl \<notin> set n" "CHR ''='' \<notin> set n" "nl \<notin> set v"
    and rest: "parse_plain (concat (map plain_field fs)) = Some fs"
    using Cons.IH by (simp_all add: f)
  have "parse_plain (n @ ''='' @ v @ [nl] @ concat (map plain_field fs)) = Some ((n, v) # fs)"
    by (simp only: parse_plain_line [OF ok] rest option.case)
  moreover have "concat (map plain_field (f # fs)) = n @ ''='' @ v @ [nl] @ concat (map plain_field fs)"
    by (simp add: f plain_field_def)
  ultimately show ?case by (simp only: f)
qed

lemma encode_plain:
  assumes "nl \<notin> set (Message t)" "nl \<notin> set raw"
    and "list_all (\<lambda>x. nl \<notin> set (Value x)) (KeyValue t)"
  shows "encode up t raw = concat (map plain_field (spec_fields up t raw))"
proof -
  have m: "map (\<lambda>x. print [] (ToUpper up (Key x)) (Value x)) (KeyValue t)
        = map (\<lambda>x. ToUpper up (Key x) @ ''='' @ Value x @ [nl]) (KeyValue t)"
    using assms(3) by (simp add: list_all_iff print_plain)
  show ?thesis
    unfolding encode_append m spec_fields_def
    using assms(1,2) nl_notin_priority [of "Level t"]
    by (simp add: print_plain plain_field_def comp_def)
qed

text \<open>
  C8, as amended: for a record whose message, raw entry and caller values contain no
  newline, and whose upper-cased keys contain neither a newline nor \<^verbatim>\<open>=\<close>, reading the
  output back by the plain rule gives the emitted pairs in the order of emission.
\<close>

theorem plain_round_trip:
  assumes "nl \<notin> set (Message t)" and "nl \<notin> set raw"
    and "list_all (\<lambda>x. nl \<notin> set (Value x) \<and> nl \<notin> set (ToUpper up (Key x))
                        \<and> CHR ''='' \<notin> set (ToUpper up (Key x))) (KeyValue t)"
  shows "parse_plain (encode up t raw) = Some (spec_fields up t raw)"
proof -
  have vs: "list_all (\<lambda>x. nl \<notin> set (Value x)) (KeyValue t)"
    using assms(3) by (simp add: list_all_iff)
  have "list_all (\<lambda>f. nl \<notin> set (fst f) \<and> CHR ''='' \<notin> set (fst f) \<and> nl \<notin> set (snd f))
          (spec_fields up t raw)"
    using assms nl_notin_priority [of "Level t"]
    by (simp add: spec_fields_def list_all_iff nl_def) 
  then show ?thesis
    by (simp only: encode_plain [OF assms(1,2) vs] parse_plain_fields)
qed

theorem plain_round_trip_witness:
  \<open>nl \<notin> set ''hello'' \<and> nl \<notin> set ''{"a":1}''
   \<and> parse_plain (encode (\<lambda>s. s) \<lparr>Level = InfoLevel, Message = ''hello'',
               KeyValue = [\<lparr>Key = ''user'', Value = ''alice''\<rparr>]\<rparr> ''{"a":1}'')
     = Some [(''PRIORITY'', ''6''), (''MESSAGE'', ''hello''), (''USER'', ''alice''), (''JSON'', ''{"a":1}'')]\<close>
proof -
  have up: "ToUpper (\<lambda>s. s) ''user'' = ''USER''" by code_simp
  show ?thesis
  using plain_round_trip [of "\<lparr>Level = InfoLevel, Message = ''hello'',
               KeyValue = [\<lparr>Key = ''user'', Value = ''alice''\<rparr>]\<rparr>" "''{\"a\":1}''" "\<lambda>s. s"]
  by (simp add: nl_def spec_fields_def up)
qed

text \<open>
  C8, as stated, fails: the key \<^verbatim>\<open>a=b\<close> with the value \<^verbatim>\<open>c\<close> is emitted as the line
  \<^verbatim>\<open>A=B=c\<close>, which the plain rule reads as the name \<^verbatim>\<open>A\<close> with the value \<^verbatim>\<open>B=c\<close>, although
  no emitted value contains a newline.
\<close>

theorem plain_round_trip_counterexample:
  \<open>nl \<notin> set ''6'' \<and> nl \<notin> set ''m'' \<and> nl \<notin> set ''c''
   \<and> nl \<notin> set ''{"level":"info","a=b":"c","message":"m"}''
   \<and> spec_fields (\<lambda>s. s)
         \<lparr>Level = InfoLevel, Message = ''m'', KeyValue = [\<lparr>Key = ''a=b'', Value = ''c''\<rparr>]\<rparr>
         ''{"level":"info","a=b":"c","message":"m"}''
       = [(''PRIORITY'', ''6''), (''MESSAGE'', ''m''), (''A=B'', ''c''),
          (''JSON'', ''{"level":"info","a=b":"c","message":"m"}'')]
   \<and> parse_plain (encode (\<lambda>s. s)
         \<lparr>Level = InfoLevel, Message = ''m'', KeyValue = [\<lparr>Key = ''a=b'', Value = ''c''\<rparr>]\<rparr>
         ''{"level":"info","a=b":"c","message":"m"}'')
       = Some [(''PRIORITY'', ''6''), (''MESSAGE'', ''m''), (''A'', ''B=c''),
               (''JSON'', ''{"level":"info","a=b":"c","message":"m"}'')]
   \<and> parse_plain (encode (\<lambda>s. s)
         \<lparr>Level = InfoLevel, Message = ''m'', KeyValue = [\<lparr>Key = ''a=b'', Value = ''c''\<rparr>]\<rparr>
         ''{"level":"info","a=b":"c","message":"m"}'')
       \<noteq> Some (spec_fields (\<lambda>s. s)
         \<lparr>Level = InfoLevel, Message = ''m'', KeyValue = [\<lparr>Key = ''a=b'', Value = ''c''\<rparr>]\<rparr>
         ''{"level":"info","a=b":"c","message":"m"}'')\<close>
  by code_simp

section \<open>Properties of the writer\<close>

subsection \<open>Paths through one call\<close>

lemma once_Do_trace:
  "once_Do env w = (r, w1, tr0) \<Longrightarrow> set tr0 \<subseteq> {EvResolveUnixAddr, EvListenUnixgram}"
  by (auto simp: once_Do_def Let_def split: if_splits option.splits)

lemma fallback_attempt: "EvTempFile \<in> set (snd (fallback env w e b n))"
  by (simp add: fallback_def split: sum.splits option.splits prod.splits sent.splits)

lemma size_limit_iff:
  "size_limit err \<longleftrightarrow>
     err = OpError (SyscallError (Errno EMSGSIZE)) \<or> err = OpError (SyscallError (Errno ENOBUFS))"
  by (auto simp: size_limit_def split: error.splits)

lemma length_print: "length v < length (print b n v)"
  by (simp add: print_def Fprintln_def binary_Write_def Fprintf_eq_def)

lemma length_encode: "length raw < length (encode up t raw)"
  unfolding encode_def Let_def by (rule length_print)

lemma WriteEntry_reach:
  assumes "once_Do env w = (None, w1, tr0)" and "jsonToDot env (buf e) = Inr t"
  shows "WriteEntry env w e =
           (fst (transmit env w1 e (encode (mapUpper env) t (buf e))), w1,
            tr0 @ snd (transmit env w1 e (encode (mapUpper env) t (buf e))))"
  using assms by (simp add: WriteEntry_def split: prod.splits)

lemma fallback_unlink_fails:
  assumes "TempFile env = Inr file" and "Unlink env (Name file) = Some uerr"
  shows "fallback env w e b n = (Return n (Some uerr), [EvTempFile, EvUnlink (Name file)])"
  using assms by (simp add: fallback_def)

lemma fallback_unlinked:
  assumes "TempFile env = Inr file" and "Unlink env (Name file) = None"
  shows "\<exists>tr. snd (fallback env w e b n) = tr @ [EvFileClose (Fd file)]
            \<and> (\<forall>fd. EvFileClose fd \<notin> set tr)"
  using assms
  by (simp add: fallback_def split: prod.splits option.splits sent.splits)

lemma WriteEntry_without_conn:
  assumes "once w" and "conn w = None"
  shows "WriteEntry env w e =
           (case jsonToDot env (buf e) of
              Inl derr \<Rightarrow> (Return 0 (Some derr), w, [])
            | Inr t \<Rightarrow> (Panic, w, []))"
  using assms
  by (simp add: WriteEntry_def once_Do_def transmit_def UnixConn_WriteMsgUnix_def split: sum.splits)

lemma WriteEntry_setup_fails:
  assumes "\<not> once w" and "ResolveUnixAddr env = None" and "ListenUnixgram env = Some ierr"
  shows "returned (WriteEntry env w e) = Return 0 (Some ierr)"
    and "once (writer_after (WriteEntry env w e))"
    and "conn (writer_after (WriteEntry env w e)) = None"
  using assms by (simp_all add: WriteEntry_def once_Do_def returned_def writer_after_def Let_def)

lemma WriteEntry_closed:
  assumes "once w" and "conn w = Some ConnClosed" and "jsonToDot env (buf e) = Inr t"
  shows "WriteEntry env w e =
           (Return 0 (Some (OpError ErrNetClosing)), w,
            [EvWriteMsgUnix (encode (mapUpper env) t (buf e)) [] (addr w)])"
  using assms
  by (simp add: WriteEntry_def once_Do_def transmit_def UnixConn_WriteMsgUnix_def size_limit_def)

lemma too_large_run:
  "WriteEntry (sys0\<lparr>sendmsg := too_large\<rparr>) writer0 entry0 =
     (Return 7 None,
      writer0\<lparr>addr := Some ''/run/systemd/journal/socket'', conn := Some ConnOpen, once := True\<rparr>,
      [EvResolveUnixAddr, EvListenUnixgram,
       EvWriteMsgUnix (encode (\<lambda>s. s) dot0 (buf entry0)) [] (Some ''/run/systemd/journal/socket''),
       EvTempFile, EvUnlink ''/dev/shm/journal.XXXXX0'',
       EvFileWrite 7 (encode (\<lambda>s. s) dot0 (buf entry0)),
       EvWriteMsgUnix [] [7] (Some ''/run/systemd/journal/socket''), EvFileClose 7])"
  by (simp add: WriteEntry_def once_Do_def transmit_def fallback_def UnixConn_WriteMsgUnix_def
      size_limit_def too_large_def sys0_def writer0_def entry0_def)

lemma encode0: \<open>encode (\<lambda>s. s) dot0 (buf entry0)
    = ''PRIORITY=6\<newline>MESSAGE=hello\<newline>USER=alice\<newline>JSON={"a":1}\<newline>''\<close>
  by code_simp

lemma opened_eq:
  "opened = \<lparr>JournalSocket = [], once = True, addr = Some ''/run/systemd/journal/socket'',
            conn = Some ConnOpen\<rparr>"
  by (simp add: opened_def WriteEntry_def once_Do_def transmit_def UnixConn_WriteMsgUnix_def
      writer_after_def sys0_def writer0_def)

lemma first_run:
  "WriteEntry sys0 writer0 entry0 =
     (Return 49 None, opened,
      [EvResolveUnixAddr, EvListenUnixgram,
       EvWriteMsgUnix (encode (\<lambda>s. s) dot0 (buf entry0)) [] (Some ''/run/systemd/journal/socket'')])"
  by (simp add: opened_eq)
     (simp add: WriteEntry_def once_Do_def transmit_def UnixConn_WriteMsgUnix_def sys0_def
      writer0_def encode0)

subsection \<open>When the fallback runs\<close>

text \<open>
  C3: the fallback is attempted (a temporary file is asked for) exactly when the setup
  and the decoding have succeeded and the direct send has failed with a
  \<^verbatim>\<open>*net.OpError\<close> around a \<^verbatim>\<open>*os.SyscallError\<close> around \<^verbatim>\<open>EMSGSIZE\<close> or \<^verbatim>\<open>ENOBUFS\<close>; when the
  direct send fails with any other error, the call returns the send's \<^verbatim>\<open>n\<close> and that
  error unchanged, and the direct send is its only event after the setup.
\<close>

theorem fallback_iff_size_limit:
  "(EvTempFile \<in> set (trace (WriteEntry env w e)) \<longleftrightarrow>
      (\<exists>w1 tr0 t n err.
          once_Do env w = (None, w1, tr0) \<and> jsonToDot env (buf e) = Inr t
          \<and> UnixConn_WriteMsgUnix env (conn w1) (encode (mapUpper env) t (buf e)) [] (addr w1)
               = Sent n (Some err)
          \<and> (err = OpError (SyscallError (Errno EMSGSIZE))
               \<or> err = OpError (SyscallError (Errno ENOBUFS)))))
   \<and> (once_Do env w = (None, w1, tr0) \<and> jsonToDot env (buf e) = Inr t
        \<and> UnixConn_WriteMsgUnix env (conn w1) (encode (mapUpper env) t (buf e)) [] (addr w1)
             = Sent n (Some err)
        \<and> err \<noteq> OpError (SyscallError (Errno EMSGSIZE))
        \<and> err \<noteq> OpError (SyscallError (Errno ENOBUFS))
      \<longrightarrow> WriteEntry env w e =
            (Return n (Some err), w1,
             tr0 @ [EvWriteMsgUnix (encode (mapUpper env) t (buf e)) [] (addr w1)]))"
proof (intro conjI impI iffI)
  assume tf: "EvTempFile \<in> set (trace (WriteEntry env w e))"
  obtain r w1 tr0 where o: "once_Do env w = (r, w1, tr0)" by (cases "once_Do env w")
  have no: "EvTempFile \<notin> set tr0" using once_Do_trace [OF o] by auto
  show "\<exists>w1 tr0 t n err.
          once_Do env w = (None, w1, tr0) \<and> jsonToDot env (buf e) = Inr t
          \<and> UnixConn_WriteMsgUnix env (conn w1) (encode (mapUpper env) t (buf e)) [] (addr w1)
               = Sent n (Some err)
          \<and> (err = OpError (SyscallError (Errno EMSGSIZE))
               \<or> err = OpError (SyscallError (Errno ENOBUFS)))"
    using tf no o
    by (auto simp: WriteEntry_def trace_def transmit_def size_limit_iff
        split: option.splits sum.splits sent.splits if_splits prod.splits)
next
  assume "\<exists>w1 tr0 t n err.
          once_Do env w = (None, w1, tr0) \<and> jsonToDot env (buf e) = Inr t
          \<and> UnixConn_WriteMsgUnix env (conn w1) (encode (mapUpper env) t (buf e)) [] (addr w1)
               = Sent n (Some err)
          \<and> (err = OpError (SyscallError (Errno EMSGSIZE))
               \<or> err = OpError (SyscallError (Errno ENOBUFS)))"
  then obtain w1 tr0 t n err where
    r: "once_Do env w = (None, w1, tr0)" "jsonToDot env (buf e) = Inr t"
    and s: "UnixConn_WriteMsgUnix env (conn w1) (encode (mapUpper env) t (buf e)) [] (addr w1)
               = Sent n (Some err)"
    and sl: "size_limit err"
    by (auto simp: size_limit_iff)
  show "EvTempFile \<in> set (trace (WriteEntry env w e))"
    using s sl fallback_attempt [of env w1 e "encode (mapUpper env) t (buf e)" n]
    by (auto simp: WriteEntry_reach [OF r] trace_def transmit_def split: prod.splits)
next
  assume a: "once_Do env w = (None, w1, tr0) \<and> jsonToDot env (buf e) = Inr t
        \<and> UnixConn_WriteMsgUnix env (conn w1) (encode (mapUpper env) t (buf e)) [] (addr w1)
             = Sent n (Some err)
        \<and> err \<noteq> OpError (SyscallError (Errno EMSGSIZE))
        \<and> err \<noteq> OpError (SyscallError (Errno ENOBUFS))"
  then have r: "once_Do env w = (None, w1, tr0)" "jsonToDot env (buf e) = Inr t" by simp_all
  from a have "\<not> size_limit err" by (simp add: size_limit_iff)
  with a show "WriteEntry env w e =
            (Return n (Some err), w1,
             tr0 @ [EvWriteMsgUnix (encode (mapUpper env) t (buf e)) [] (addr w1)])"
    by (simp add: WriteEntry_reach [OF r] transmit_def)
qed

theorem fallback_iff_size_limit_witness:
  "EvTempFile \<in> set (trace (WriteEntry (sys0\<lparr>sendmsg := too_large\<rparr>) writer0 entry0))
   \<and> EvTempFile \<notin> set (trace (WriteEntry sys0 writer0 entry0))
   \<and> WriteEntry (sys0\<lparr>sendmsg := (\<lambda>b oob a. (0, Some (OpError (SyscallError (Errno (OtherErrno 111))))))\<rparr>)
         writer0 entry0
       = (Return 0 (Some (OpError (SyscallError (Errno (OtherErrno 111))))),
          writer0\<lparr>addr := Some ''/run/systemd/journal/socket'', conn := Some ConnOpen, once := True\<rparr>,
          [EvResolveUnixAddr, EvListenUnixgram,
           EvWriteMsgUnix (encode (\<lambda>s. s) dot0 (buf entry0)) [] (Some ''/run/systemd/journal/socket'')])"
proof -
  let ?refused = "sys0\<lparr>sendmsg := (\<lambda>b oob a. (0, Some (OpError (SyscallError (Errno (OtherErrno 111))))))\<rparr>"
  let ?w1 = "writer0\<lparr>addr := Some ''/run/systemd/journal/socket'', conn := Some ConnOpen, once := True\<rparr>"
  have o: "once_Do ?refused writer0 = (None, ?w1, [EvResolveUnixAddr, EvListenUnixgram])"
    by (simp add: once_Do_def sys0_def writer0_def)
  have d: "jsonToDot ?refused (buf entry0) = Inr dot0"
    by (simp add: sys0_def)
  have s: "UnixConn_WriteMsgUnix ?refused (conn ?w1) (encode (mapUpper ?refused) dot0 (buf entry0)) []
             (addr ?w1) = Sent 0 (Some (OpError (SyscallError (Errno (OtherErrno 111)))))"
    by (simp add: UnixConn_WriteMsgUnix_def sys0_def)
  have a: "EvTempFile \<in> set (trace (WriteEntry (sys0\<lparr>sendmsg := too_large\<rparr>) writer0 entry0))"
    using fallback_iff_size_limit [of "sys0\<lparr>sendmsg := too_large\<rparr>" writer0 entry0]
    by (simp add: once_Do_def sys0_def writer0_def UnixConn_WriteMsgUnix_def too_large_def)
  have b: "EvTempFile \<notin> set (trace (WriteEntry sys0 writer0 entry0))"
    using fallback_iff_size_limit [of sys0 writer0 entry0]
    by (simp add: once_Do_def sys0_def writer0_def UnixConn_WriteMsgUnix_def)
  have c: "WriteEntry ?refused writer0 entry0
       = (Return 0 (Some (OpError (SyscallError (Errno (OtherErrno 111))))), ?w1,
          [EvResolveUnixAddr, EvListenUnixgram] @
          [EvWriteMsgUnix (encode (mapUpper ?refused) dot0 (buf entry0)) [] (addr ?w1)])"
    using fallback_iff_size_limit [of ?refused writer0 entry0 ?w1 "[EvResolveUnixAddr, EvListenUnixgram]"
        dot0 0 "OpError (SyscallError (Errno (OtherErrno 111)))"] o d s
    by simp
  show ?thesis using a b c by (simp add: sys0_def)
qed

subsection \<open>What the fallback reports\<close>

text \<open>
  C1, as amended: when the direct send is refused for its size and the file is created,
  unlinked and written and the descriptor is sent without error, the call returns the
  length of the raw entry \<^verbatim>\<open>e.buf\<close> with no error; the bytes written to the file are the
  encoded record, which is longer than the raw entry.
\<close>

theorem fallback_reports_entry_length:
  assumes "once_Do env w = (None, w1, tr0)"
    and "jsonToDot env (buf e) = Inr t"
    and "UnixConn_WriteMsgUnix env (conn w1) (encode (mapUpper env) t (buf e)) [] (addr w1)
           = Sent n (Some err)"
    and "size_limit err"
    and "TempFile env = Inr file"
    and "Unlink env (Name file) = None"
    and "file_Write env file (encode (mapUpper env) t (buf e)) = (n1, None)"
    and "UnixConn_WriteMsgUnix env (conn w1) [] [Fd file] (addr w1) = Sent m None"
  shows "returned (WriteEntry env w e) = Return (length (buf e)) None
     \<and> EvFileWrite (Fd file) (encode (mapUpper env) t (buf e)) \<in> set (trace (WriteEntry env w e))
     \<and> length (buf e) < length (encode (mapUpper env) t (buf e))"
  using assms(3-8)
  by (simp add: WriteEntry_reach [OF assms(1,2)] returned_def trace_def transmit_def fallback_def
      length_encode)

theorem fallback_reports_entry_length_witness:
  "returned (WriteEntry (sys0\<lparr>sendmsg := too_large\<rparr>) writer0 entry0) = Return (length (buf entry0)) None
   \<and> size_limit (OpError (SyscallError (Errno EMSGSIZE)))
   \<and> length (buf entry0) < length (encode (\<lambda>s. s) dot0 (buf entry0))"
proof -
  let ?env = "sys0\<lparr>sendmsg := too_large\<rparr>"
  let ?w1 = "writer0\<lparr>addr := Some ''/run/systemd/journal/socket'', conn := Some ConnOpen, once := True\<rparr>"
  let ?file = "\<lparr>Name = ''/dev/shm/journal.XXXXX0'', Fd = 7\<rparr>"
  have o: "once_Do ?env writer0 = (None, ?w1, [EvResolveUnixAddr, EvListenUnixgram])"
    by (simp add: once_Do_def sys0_def writer0_def)
  have d: "jsonToDot ?env (buf entry0) = Inr dot0"
    by (simp add: sys0_def)
  have s: "UnixConn_WriteMsgUnix ?env (conn ?w1) (encode (mapUpper ?env) dot0 (buf entry0)) []
             (addr ?w1) = Sent 0 (Some (OpError (SyscallError (Errno EMSGSIZE))))"
    by (simp add: UnixConn_WriteMsgUnix_def too_large_def)
  have l: "size_limit (OpError (SyscallError (Errno EMSGSIZE)))"
    by (simp add: size_limit_def)
  have f: "TempFile ?env = Inr ?file" "Unlink ?env (Name ?file) = None"
    "file_Write ?env ?file (encode (mapUpper ?env) dot0 (buf entry0))
       = (length (encode (mapUpper ?env) dot0 (buf entry0)), None)"
    by (simp_all add: sys0_def)
  have r: "UnixConn_WriteMsgUnix ?env (conn ?w1) [] [Fd ?file] (addr ?w1) = Sent 0 None"
    by (simp add: UnixConn_WriteMsgUnix_def too_large_def)
  show ?thesis
    using fallback_reports_entry_length [OF o d s l f r] l by (simp add: sys0_def)
qed

text \<open>
  C1, as stated, fails: for the entry \<^verbatim>\<open>{"a":1}\<close> the file receives the 49 encoded bytes
  and the call returns 7, the length of the raw entry.
\<close>

theorem fallback_reports_entry_length_counterexample:
  "returned (WriteEntry (sys0\<lparr>sendmsg := too_large\<rparr>) writer0 entry0) = Return 7 None
   \<and> EvFileWrite 7 (encode (\<lambda>s. s) dot0 (buf entry0))
        \<in> set (trace (WriteEntry (sys0\<lparr>sendmsg := too_large\<rparr>) writer0 entry0))
   \<and> length (encode (\<lambda>s. s) dot0 (buf entry0)) = 49
   \<and> returned (WriteEntry (sys0\<lparr>sendmsg := too_large\<rparr>) writer0 entry0)
        \<noteq> Return (length (encode (\<lambda>s. s) dot0 (buf entry0))) None"
  by (simp add: too_large_run returned_def trace_def) (simp add: encode0)

subsection \<open>Closing the temporary file\<close>

text \<open>
  C10: in the fallback, with the temporary file created, a failing unlink makes the call
  return the unlink error with the \<^verbatim>\<open>n\<close> of the refused send and no close of any file
  among its events; after a successful unlink the close of the file's descriptor is the
  last event of the call and happens once, whatever the write and the second send
  answer.
\<close>

theorem close_after_unlink_only:
  assumes "once_Do env w = (None, w1, tr0)"
    and "jsonToDot env (buf e) = Inr t"
    and "UnixConn_WriteMsgUnix env (conn w1) (encode (mapUpper env) t (buf e)) [] (addr w1)
           = Sent n (Some err)"
    and "size_limit err"
    and "TempFile env = Inr file"
  shows "(Unlink env (Name file) = Some uerr \<longrightarrow>
            returned (WriteEntry env w e) = Return n (Some uerr)
            \<and> (\<forall>fd. EvFileClose fd \<notin> set (trace (WriteEntry env w e))))
       \<and> (Unlink env (Name file) = None \<longrightarrow>
            last (trace (WriteEntry env w e)) = EvFileClose (Fd file)
            \<and> count_list (trace (WriteEntry env w e)) (EvFileClose (Fd file)) = 1)"
proof (intro conjI impI)
  let ?b = "encode (mapUpper env) t (buf e)"
  have tr0: "EvFileClose fd \<notin> set tr0" for fd
    using once_Do_trace [OF assms(1)] by auto
  have run: "WriteEntry env w e =
      (fst (fallback env w1 e ?b n), w1, tr0 @ EvWriteMsgUnix ?b [] (addr w1) # snd (fallback env w1 e ?b n))"
    using assms(3,4) by (simp add: WriteEntry_reach [OF assms(1,2)] transmit_def split: prod.splits)
  {
    assume u: "Unlink env (Name file) = Some uerr"
    show "returned (WriteEntry env w e) = Return n (Some uerr)"
      by (simp add: run returned_def fallback_unlink_fails [OF assms(5) u])
    show "\<forall>fd. EvFileClose fd \<notin> set (trace (WriteEntry env w e))"
      using tr0 by (simp add: run trace_def fallback_unlink_fails [OF assms(5) u])
  }
  {
    assume u: "Unlink env (Name file) = None"
    from fallback_unlinked [OF assms(5) u, of w1 e ?b n] obtain tr where
      tr: "snd (fallback env w1 e ?b n) = tr @ [EvFileClose (Fd file)]"
      and none: "\<forall>fd. EvFileClose fd \<notin> set tr"
      by blast
    show "last (trace (WriteEntry env w e)) = EvFileClose (Fd file)"
      by (simp add: run trace_def tr)
    have "count_list (tr0 @ EvWriteMsgUnix ?b [] (addr w1) # tr) (EvFileClose (Fd file)) = 0"
      using tr0 none by (simp add: count_list_0_iff)
    then show "count_list (trace (WriteEntry env w e)) (EvFileClose (Fd file)) = 1"
      by (simp add: run trace_def tr)
  }
qed

theorem close_after_unlink_only_witness:
  "size_limit (OpError (SyscallError (Errno EMSGSIZE)))
   \<and> returned (WriteEntry (sys0\<lparr>sendmsg := too_large, Unlink := (\<lambda>p. Some (Errno (OtherErrno 13)))\<rparr>)
                 writer0 entry0)
       = Return 0 (Some (Errno (OtherErrno 13)))
   \<and> EvFileClose 7
       \<notin> set (trace (WriteEntry (sys0\<lparr>sendmsg := too_large,
                                       Unlink := (\<lambda>p. Some (Errno (OtherErrno 13)))\<rparr>)
                         writer0 entry0))
   \<and> last (trace (WriteEntry (sys0\<lparr>sendmsg := too_large,
                                     file_Write := (\<lambda>f b. (0, Some (OtherError ''write'')))\<rparr>)
                       writer0 entry0))
       = EvFileClose 7"
proof -
  let ?a = "sys0\<lparr>sendmsg := too_large, Unlink := (\<lambda>p. Some (Errno (OtherErrno 13)))\<rparr>"
  let ?b = "sys0\<lparr>sendmsg := too_large, file_Write := (\<lambda>f b. (0, Some (OtherError ''write'')))\<rparr>"
  let ?w1 = "writer0\<lparr>addr := Some ''/run/systemd/journal/socket'', conn := Some ConnOpen, once := True\<rparr>"
  let ?file = "\<lparr>Name = ''/dev/shm/journal.XXXXX0'', Fd = 7\<rparr>"
  have l: "size_limit (OpError (SyscallError (Errno EMSGSIZE)))"
    by (simp add: size_limit_def)
  have oa: "once_Do ?a writer0 = (None, ?w1, [EvResolveUnixAddr, EvListenUnixgram])"
    and ob: "once_Do ?b writer0 = (None, ?w1, [EvResolveUnixAddr, EvListenUnixgram])"
    by (simp_all add: once_Do_def sys0_def writer0_def)
  have da: "jsonToDot ?a (buf entry0) = Inr dot0" and db: "jsonToDot ?b (buf entry0) = Inr dot0"
    by (simp_all add: sys0_def)
  have sa: "UnixConn_WriteMsgUnix ?a (conn ?w1) (encode (mapUpper ?a) dot0 (buf entry0)) []
             (addr ?w1) = Sent 0 (Some (OpError (SyscallError (Errno EMSGSIZE))))"
    and sb: "UnixConn_WriteMsgUnix ?b (conn ?w1) (encode (mapUpper ?b) dot0 (buf entry0)) []
             (addr ?w1) = Sent 0 (Some (OpError (SyscallError (Errno EMSGSIZE))))"
    by (simp_all add: UnixConn_WriteMsgUnix_def too_large_def)
  have fa: "TempFile ?a = Inr ?file" and fb: "TempFile ?b = Inr ?file"
    by (simp_all add: sys0_def)
  have ua: "Unlink ?a (Name ?file) = Some (Errno (OtherErrno 13))"
    and ub: "Unlink ?b (Name ?file) = None"
    by (simp_all add: sys0_def)
  show ?thesis
    using close_after_unlink_only [OF oa da sa l fa, of "Errno (OtherErrno 13)"] ua
      close_after_unlink_only [OF ob db sb l fb] ub l
    by simp
qed

subsection \<open>\<^verbatim>\<open>Close\<close>, repeated\<close>

text \<open>
  C9, as amended: on a writer without a connection \<^verbatim>\<open>Close\<close> does nothing and returns no
  error, and a \<^verbatim>\<open>WriteEntry\<close> after it behaves as if \<^verbatim>\<open>Close\<close> had not been called (on a
  writer that has not been used it sets the connection up and sends). On a writer with a
  connection, \<^verbatim>\<open>Close\<close> leaves the connection closed; every later \<^verbatim>\<open>Close\<close> leaves the
  writer as it is and returns \<^verbatim>\<open>ErrNetClosing\<close> inside a \<^verbatim>\<open>*net.OpError\<close>; and every later
  \<^verbatim>\<open>WriteEntry\<close> of a decodable entry returns 0 and that same error after one refused
  send, without fallback.
\<close>

theorem Close_repeated:
  "(conn w = None \<longrightarrow>
        Close env w = (None, w, [])
        \<and> WriteEntry env'' (writer_after (Close env w)) e = WriteEntry env'' w e)
   \<and> (conn w = Some c \<longrightarrow>
        conn (writer_after (Close env w)) = Some ConnClosed
        \<and> Close env' (writer_after (Close env w))
            = (Some (OpError ErrNetClosing), writer_after (Close env w), [EvConnClose])
        \<and> (once w \<and> jsonToDot env'' (buf e) = Inr t \<longrightarrow>
             WriteEntry env'' (writer_after (Close env w)) e
               = (Return 0 (Some (OpError ErrNetClosing)), writer_after (Close env w),
                  [EvWriteMsgUnix (encode (mapUpper env'') t (buf e)) [] (addr w)])))"
proof (intro conjI impI)
  assume "conn w = None"
  then show "Close env w = (None, w, [])"
    and "WriteEntry env'' (writer_after (Close env w)) e = WriteEntry env'' w e"
    by (simp_all add: Close_def writer_after_def)
next
  assume c: "conn w = Some c"
  let ?w1 = "writer_after (Close env w)"
  have w1: "?w1 = w\<lparr>conn := Some ConnClosed\<rparr>"
    using c by (cases c) (simp_all add: Close_def UnixConn_Close_def writer_after_def)
  show "conn ?w1 = Some ConnClosed" by (simp add: w1)
  have "Close env' (w\<lparr>conn := Some ConnClosed\<rparr>)
          = (Some (OpError ErrNetClosing), w\<lparr>conn := Some ConnClosed\<rparr>, [EvConnClose])"
    by (simp add: Close_def UnixConn_Close_def)
  then show "Close env' ?w1 = (Some (OpError ErrNetClosing), ?w1, [EvConnClose])"
    by (simp only: w1)
  assume "once w \<and> jsonToDot env'' (buf e) = Inr t"
  then show "WriteEntry env'' ?w1 e
               = (Return 0 (Some (OpError ErrNetClosing)), ?w1,
                  [EvWriteMsgUnix (encode (mapUpper env'') t (buf e)) [] (addr w)])"
    using WriteEntry_closed [of "w\<lparr>conn := Some ConnClosed\<rparr>" env'' e t] by (simp only: w1) simp
qed

theorem Close_repeated_witness:
  "conn writer0 = None \<and> Close sys0 writer0 = (None, writer0, [])
   \<and> returned (WriteEntry sys0 (writer_after (Close sys0 writer0)) entry0) = Return 49 None
   \<and> conn opened = Some ConnOpen \<and> once opened \<and> jsonToDot sys0 (buf entry0) = Inr dot0
   \<and> Close sys0 (writer_after (Close sys0 opened))
       = (Some (OpError ErrNetClosing), writer_after (Close sys0 opened), [EvConnClose])
   \<and> returned (WriteEntry sys0 (writer_after (Close sys0 opened)) entry0)
       = Return 0 (Some (OpError ErrNetClosing))"
proof -
  have a: "conn writer0 = None" by (simp add: writer0_def)
  have b: "conn opened = Some ConnOpen" "once opened" by (simp_all add: opened_eq)
  have d: "jsonToDot sys0 (buf entry0) = Inr dot0" by (simp add: sys0_def)
  have r: "Close sys0 writer0 = (None, writer0, [])
      \<and> WriteEntry sys0 (writer_after (Close sys0 writer0)) entry0 = WriteEntry sys0 writer0 entry0"
    using Close_repeated [where w = writer0 and env = sys0 and env'' = sys0 and e = entry0] a
    by blast
  have s: "Close sys0 (writer_after (Close sys0 opened))
       = (Some (OpError ErrNetClosing), writer_after (Close sys0 opened), [EvConnClose])
      \<and> WriteEntry sys0 (writer_after (Close sys0 opened)) entry0
          = (Return 0 (Some (OpError ErrNetClosing)), writer_after (Close sys0 opened),
             [EvWriteMsgUnix (encode (mapUpper sys0) dot0 (buf entry0)) [] (addr opened)])"
    using Close_repeated [where w = opened and c = ConnOpen and env = sys0 and env' = sys0
        and env'' = sys0 and e = entry0 and t = dot0] b d
    by blast
  have wa: "writer_after (x, y, z) = y" for x :: "error option" and y z
    by (simp add: writer_after_def)
  show ?thesis
    by (simp add: r s a b d wa first_run returned_def)
qed

text \<open>
  C9, as stated, fails twice. On a writer whose connection is open, the first \<^verbatim>\<open>Close\<close>
  returns no error and the second returns an error, so the second call's result is not
  the first's. On a writer that has not been used, \<^verbatim>\<open>Close\<close> releases nothing, and the
  \<^verbatim>\<open>WriteEntry\<close> after it sets the connection up and sends the 49 encoded bytes without
  error, so a send after \<^verbatim>\<open>Close\<close> does not fail.
\<close>

theorem Close_twice_counterexample:
  "returned (Close sys0 opened) = None
   \<and> returned (Close sys0 (writer_after (Close sys0 opened))) = Some (OpError ErrNetClosing)
   \<and> returned (Close sys0 (writer_after (Close sys0 opened))) \<noteq> returned (Close sys0 opened)
   \<and> Close sys0 writer0 = (None, writer0, [])
   \<and> WriteEntry sys0 (writer_after (Close sys0 writer0)) entry0
       = (Return 49 None, opened,
          [EvResolveUnixAddr, EvListenUnixgram,
           EvWriteMsgUnix (encode (\<lambda>s. s) dot0 (buf entry0)) []
             (Some ''/run/systemd/journal/socket'')])
   \<and> length (encode (\<lambda>s. s) dot0 (buf entry0)) = 49"
proof -
  have c: "Close sys0 writer0 = (None, writer0, [])"
    by (simp add: Close_def writer0_def)
  have two: "returned (Close sys0 opened) = None"
    "returned (Close sys0 (writer_after (Close sys0 opened))) = Some (OpError ErrNetClosing)"
    by (simp_all add: opened_eq Close_def UnixConn_Close_def returned_def writer_after_def sys0_def)
  have wa: "writer_after (x, y, z) = y" for x :: "error option" and y z
    by (simp add: writer_after_def)
  show ?thesis
    by (simp add: two c wa first_run) (simp add: encode0)
qed

subsection \<open>A failed setup\<close>

text \<open>
  C2 fails on the code: on a new writer whose \<^verbatim>\<open>ListenUnixgram\<close> fails, the first call
  returns the setup error; the next call, in a system where every call would succeed,
  does not run the setup again, does not return the setup error, and ends in the nil
  dereference of the send on the connection that was never made.
\<close>

theorem setup_error_not_returned_again:
  "returned (WriteEntry (sys0\<lparr>ListenUnixgram := Some no_descriptors\<rparr>) writer0 entry0)
     = Return 0 (Some no_descriptors)
   \<and> WriteEntry sys0
        (writer_after (WriteEntry (sys0\<lparr>ListenUnixgram := Some no_descriptors\<rparr>) writer0 entry0))
        entry0
     = (Panic,
        writer_after (WriteEntry (sys0\<lparr>ListenUnixgram := Some no_descriptors\<rparr>) writer0 entry0),
        [])
   \<and> returned (WriteEntry sys0
        (writer_after (WriteEntry (sys0\<lparr>ListenUnixgram := Some no_descriptors\<rparr>) writer0 entry0))
        entry0)
     \<noteq> Return 0 (Some no_descriptors)"
proof -
  let ?env = "sys0\<lparr>ListenUnixgram := Some no_descriptors\<rparr>"
  have f: "\<not> once writer0" "ResolveUnixAddr ?env = None" "ListenUnixgram ?env = Some no_descriptors"
    by (simp_all add: writer0_def sys0_def)
  note first = WriteEntry_setup_fails [OF f, of entry0]
  have "jsonToDot sys0 (buf entry0) = Inr dot0" by (simp add: sys0_def)
  then have second: "WriteEntry sys0 (writer_after (WriteEntry ?env writer0 entry0)) entry0
      = (Panic, writer_after (WriteEntry ?env writer0 entry0), [])"
    by (simp add: WriteEntry_without_conn [OF first(2,3)])
  show ?thesis
    using first(1) second by (simp add: returned_def)
qed

end
